theory Spec2Isabelle
  imports Complex_Main "HOL-Library.AList"
begin

section \<open>Python values, errors and dictionaries\<close>

text \<open>
  Board states and moves are opaque to \<^verbatim>\<open>techniques/monte_carlo.py\<close>, but the code
  hashes them, compares them with each other and unpacks moves as pairs, so they are
  modelled in one universe of hashable Python values: \<^verbatim>\<open>None\<close>, integers and tuples.
  Python's \<^verbatim>\<open>float\<close> is modelled by \<open>real\<close>: rounding is not part of the model.
\<close>

datatype pyval = PNone | PInt int | PTuple "pyval list"

text \<open>
  The exceptions the code can raise. \<open>RecursionError\<close> is raised when the recursive
  rollout exceeds the interpreter's recursion limit (the fuel of \<open>monte_carlo_sample\<close>);
  \<open>Diverged\<close> is not a Python exception: it marks that the \<^verbatim>\<open>while\<close> loop of the tree
  search did not finish within the fuel it was given.
\<close>

datatype error =
  ZeroDivisionError | TypeError | ValueError | IndexError | KeyError | NameError
  | RecursionError | Diverged

text \<open>
  \<^verbatim>\<open>collections.defaultdict(int)\<close> keyed by moves: an association list in insertion
  order, since \<^verbatim>\<open>min\<close> and \<^verbatim>\<open>max\<close> iterate over it. \<open>AList.update\<close> overwrites in
  place or appends, as a Python \<^verbatim>\<open>dict\<close> does.
\<close>

type_synonym counts = "(pyval \<times> int) list"

definition dd_get :: "counts \<Rightarrow> pyval \<Rightarrow> int" where
  "dd_get d k = (case map_of d k of None \<Rightarrow> 0 | Some v \<Rightarrow> v)"

definition dd_incr :: "counts \<Rightarrow> pyval \<Rightarrow> counts" where
  \<comment> \<open>\<^verbatim>\<open>d[k] += 1\<close>\<close>
  "dd_incr d k = AList.update k (dd_get d k + 1) d"

text \<open>
  \<^verbatim>\<open>collections.defaultdict(float)\<close> keyed by board states. The tree search never
  iterates over these two dictionaries, so they are maps; a missing key reads as \<open>0.0\<close>.
\<close>

type_synonym stats = "pyval \<rightharpoonup> real"

definition st_get :: "stats \<Rightarrow> pyval \<Rightarrow> real" where
  "st_get d k = (case d k of None \<Rightarrow> 0 | Some v \<Rightarrow> v)"

definition st_add :: "stats \<Rightarrow> pyval \<Rightarrow> real \<Rightarrow> stats" where
  \<comment> \<open>\<^verbatim>\<open>d[k] += v\<close>\<close>
  "st_add d k v = d(k \<mapsto> st_get d k + v)"

text \<open>
  Python's \<^verbatim>\<open>max(xs, key=f)\<close> and \<^verbatim>\<open>min(xs, key=f)\<close> on a non-empty iterable: the
  running best is replaced only by a strictly better element, so the first of several
  equally good elements is returned.
\<close>

fun py_max_by :: "('a \<Rightarrow> 'k::linorder) \<Rightarrow> 'a \<Rightarrow> 'a list \<Rightarrow> 'a" where
  "py_max_by key best [] = best"
| "py_max_by key best (x # xs) = py_max_by key (if key best < key x then x else best) xs"

fun py_min_by :: "('a \<Rightarrow> 'k::linorder) \<Rightarrow> 'a \<Rightarrow> 'a list \<Rightarrow> 'a" where
  "py_min_by key best [] = best"
| "py_min_by key best (x # xs) = py_min_by key (if key x < key best then x else best) xs"

section \<open>The game model and the sources of randomness\<close>

record game_spec =
  has_winner :: "pyval \<Rightarrow> int option"
  available_moves :: "pyval \<Rightarrow> pyval list"
  apply_move :: "pyval \<Rightarrow> pyval \<Rightarrow> int \<Rightarrow> pyval"
  flat_move_to_tuple :: "int \<Rightarrow> pyval"
  tuple_move_to_flat :: "pyval \<Rightarrow> int"

text \<open>
  The module \<^verbatim>\<open>random\<close> is a sequence of draws \<open>draws :: nat \<Rightarrow> nat\<close> and a position in
  it, which every call advances. \<^verbatim>\<open>random.choice(xs)\<close> raises \<^verbatim>\<open>IndexError\<close> on an
  empty sequence.
\<close>

definition random_choice :: "(nat \<Rightarrow> nat) \<Rightarrow> nat \<Rightarrow> 'a list \<Rightarrow> error + ('a \<times> nat)" where
  "random_choice draws i xs =
     (if xs = [] then Inl IndexError else Inr (xs ! (draws i mod length xs), Suc i))"

text \<open>
  \<^verbatim>\<open>get_stochastic_network_move\<close> lives in \<^verbatim>\<open>common.network_helpers\<close>, outside this
  module; it is a parameter \<open>net\<close> that maps the board state, the side and one draw to
  the vector it returns (the session, the layers, \<^verbatim>\<open>valid_only\<close> and \<^verbatim>\<open>cnn_on\<close> are
  only handed through to it). The sampler then decodes the first index holding \<open>1\<close>.
\<close>

type_synonym network = "pyval \<Rightarrow> int \<Rightarrow> nat \<Rightarrow> real list"

definition network_move ::
  "game_spec \<Rightarrow> network \<Rightarrow> (nat \<Rightarrow> nat) \<Rightarrow> nat \<Rightarrow> pyval \<Rightarrow> int \<Rightarrow> error + (pyval \<times> nat)" where
  "network_move game net draws i board_state side =
     (let move = net board_state side (draws i)
      in case filter (\<lambda>j. move ! j = 1) [0..<length move] of
           [] \<Rightarrow> Inl IndexError
         | j # _ \<Rightarrow> Inr (flat_move_to_tuple game (int j), Suc i))"

section \<open>The rollout sampler\<close>

text \<open>
  \<^verbatim>\<open>_monte_carlo_sample\<close>. The first argument is the number of stack frames left: the
  recursion is as deep as the game is long. The result carries the position reached in
  the sequence of draws.
\<close>

fun monte_carlo_sample ::
  "nat \<Rightarrow> game_spec \<Rightarrow> network \<Rightarrow> (nat \<Rightarrow> nat) \<Rightarrow> bool \<Rightarrow> pyval \<Rightarrow> int \<Rightarrow> nat
     \<Rightarrow> error + (int \<times> pyval \<times> nat)" where
  "monte_carlo_sample 0 game net draws policy board_state side i = Inl RecursionError"
| "monte_carlo_sample (Suc fuel) game net draws policy board_state side i =
     (case has_winner game board_state of
        Some result \<Rightarrow> Inr (result, PNone, i)
      | None \<Rightarrow>
          (let moves = available_moves game board_state
           in if moves = [] then Inr (0, PNone, i)
              else
                (case (if policy then network_move game net draws i board_state side
                       else random_choice draws i moves) of
                   Inl e \<Rightarrow> Inl e
                 | Inr (move, i') \<Rightarrow>
                     (case monte_carlo_sample fuel game net draws policy
                             (apply_move game board_state move side) (- side) i' of
                        Inl e \<Rightarrow> Inl e
                      | Inr (result, next_move, i'') \<Rightarrow> Inr (result, move, i'')))))"

section \<open>Flat Monte Carlo search\<close>

text \<open>
  The loop of \<^verbatim>\<open>monte_carlo_tree_search\<close>. Its state is \<^verbatim>\<open>move_wins\<close>,
  \<^verbatim>\<open>move_samples\<close>, the loop's variable \<^verbatim>\<open>move\<close> (unbound before the first rollout)
  and the position in the draws.
\<close>

type_synonym flat_state = "counts \<times> counts \<times> pyval option \<times> nat"

fun flat_rollouts ::
  "nat \<Rightarrow> nat \<Rightarrow> game_spec \<Rightarrow> network \<Rightarrow> (nat \<Rightarrow> nat) \<Rightarrow> bool \<Rightarrow> pyval \<Rightarrow> int
     \<Rightarrow> flat_state \<Rightarrow> error + flat_state" where
  "flat_rollouts 0 fuel game net draws policy board_state side st = Inr st"
| "flat_rollouts (Suc n) fuel game net draws policy board_state side
       (move_wins, move_samples, last_move, i) =
     (case monte_carlo_sample fuel game net draws policy board_state side i of
        Inl e \<Rightarrow> Inl e
      | Inr (result, move, i') \<Rightarrow>
          flat_rollouts n fuel game net draws policy board_state side
            (if result = side then dd_incr move_wins move else move_wins,
             dd_incr move_samples move, Some move, i'))"

text \<open>
  The choice of the move. In the \<^verbatim>\<open>max\<close> branch the key of a candidate \<open>x\<close> is
  \<^verbatim>\<open>move_wins.get(x) / move_samples[move]\<close>, where \<^verbatim>\<open>move\<close> is the variable of the
  enclosing function: the move of the last rollout.
\<close>

definition flat_select :: "counts \<Rightarrow> counts \<Rightarrow> pyval option \<Rightarrow> error + pyval" where
  "flat_select move_wins move_samples last_move =
     (if length move_wins = 0 then
        (case map fst move_samples of
           [] \<Rightarrow> Inl ValueError
         | k # ks \<Rightarrow> Inr (py_min_by (dd_get move_samples) k ks))
      else
        (case last_move of
           None \<Rightarrow> Inl NameError
         | Some move \<Rightarrow>
             if dd_get move_samples move = 0 then Inl ZeroDivisionError
             else
               (case map fst move_wins of
                  [] \<Rightarrow> Inl ValueError
                | k # ks \<Rightarrow>
                    Inr (py_max_by
                          (\<lambda>x. real_of_int (dd_get move_wins x)
                                 / real_of_int (dd_get move_samples move)) k ks))))"

text \<open>The label vector of policy mode: \<^verbatim>\<open>listofzeros[flat_move] = 1\<close> on 81 zeros.\<close>

definition one_hot :: "int \<Rightarrow> error + int list" where
  "one_hot flat_move =
     (let listofzeros = replicate 81 (0::int)
      in if 0 \<le> flat_move \<and> flat_move < 81 then Inr (listofzeros[nat flat_move := 1])
         else if - 81 \<le> flat_move \<and> flat_move < 0
           then Inr (listofzeros[nat (81 + flat_move) := 1])
         else Inl IndexError)"

datatype flat_answer = Move pyval | Label "int list"

definition flat_result ::
  "game_spec \<Rightarrow> bool \<Rightarrow> counts \<Rightarrow> counts \<Rightarrow> pyval \<Rightarrow> error + (real \<times> flat_answer)" where
  "flat_result game policy move_wins move_samples move =
     (case (if policy then map_sum id Label (one_hot (tuple_move_to_flat game move))
            else Inr (Move move)) of
        Inl e \<Rightarrow> Inl e
      | Inr answer \<Rightarrow>
          if dd_get move_samples move = 0 then Inl ZeroDivisionError
          else Inr (real_of_int (dd_get move_wins move)
                      / real_of_int (dd_get move_samples move), answer))"

definition monte_carlo_tree_search ::
  "nat \<Rightarrow> game_spec \<Rightarrow> network \<Rightarrow> (nat \<Rightarrow> nat) \<Rightarrow> bool \<Rightarrow> pyval \<Rightarrow> int \<Rightarrow> nat
     \<Rightarrow> error + (real \<times> flat_answer)" where
  "monte_carlo_tree_search fuel game net draws policy board_state side number_of_samples =
     (case flat_rollouts number_of_samples fuel game net draws policy board_state side
             ([], [], None, 0) of
        Inl e \<Rightarrow> Inl e
      | Inr (move_wins, move_samples, last_move, i) \<Rightarrow>
          (case flat_select move_wins move_samples last_move of
             Inl e \<Rightarrow> Inl e
           | Inr move \<Rightarrow> flat_result game policy move_wins move_samples move))"

section \<open>Tree search with upper confidence bounds\<close>

definition upper_confidence_bounds :: "real \<Rightarrow> real \<Rightarrow> real \<Rightarrow> real" where
  "upper_confidence_bounds payout samples_for_this_machine log_total_samples =
     payout / samples_for_this_machine
       + sqrt ((2 * log_total_samples) / samples_for_this_machine)"

text \<open>
  \<^verbatim>\<open>{move: game_spec.apply_move(board, move, side) for move in available_moves(board)}\<close>:
  a dictionary in the order of the legal moves.
\<close>

definition move_states_of :: "game_spec \<Rightarrow> pyval \<Rightarrow> int \<Rightarrow> (pyval \<times> pyval) list" where
  "move_states_of game board_state side =
     fold (\<lambda>move d. AList.update move (apply_move game board_state move side) d)
       (available_moves game board_state) []"

text \<open>
  \<^verbatim>\<open>all((state in state_samples) for _, state in move_states)\<close>. Iterating over a
  dictionary yields its keys, so each item is a move, and the move is what gets
  unpacked into \<^verbatim>\<open>_, state\<close>: a tuple of two elements gives its second element, a tuple
  of another length raises \<^verbatim>\<open>ValueError\<close>, a value that is not iterable raises
  \<^verbatim>\<open>TypeError\<close>. \<^verbatim>\<open>all\<close> stops at the first item that is false.
\<close>

fun all_children_sampled :: "pyval list \<Rightarrow> stats \<Rightarrow> error + bool" where
  "all_children_sampled [] state_samples = Inr True"
| "all_children_sampled (PTuple [u, state] # items) state_samples =
     (if state_samples state \<noteq> None then all_children_sampled items state_samples
      else Inr False)"
| "all_children_sampled (PTuple vs # items) state_samples = Inl ValueError"
| "all_children_sampled (v # items) state_samples = Inl TypeError"

text \<open>
  The choice of a move inside the descent. When \<^verbatim>\<open>all\<close> is true the code takes
  \<^verbatim>\<open>math.log\<close> of the children's total samples (\<^verbatim>\<open>ValueError\<close> unless the total is
  positive) and then calls \<^verbatim>\<open>max(move_states, key=lambda _, s: ...)\<close>: \<^verbatim>\<open>max\<close> hands
  the key function one argument, the function takes two, and the call raises
  \<^verbatim>\<open>TypeError\<close> before \<open>upper_confidence_bounds\<close> is reached.
\<close>

definition uct_select ::
  "(pyval \<times> pyval) list \<Rightarrow> stats \<Rightarrow> (nat \<Rightarrow> nat) \<Rightarrow> nat \<Rightarrow> error + (pyval \<times> nat)" where
  "uct_select move_states state_samples draws i =
     (case all_children_sampled (map fst move_states) state_samples of
        Inl e \<Rightarrow> Inl e
      | Inr True \<Rightarrow>
          if sum_list (map (\<lambda>s. st_get state_samples s) (map snd move_states)) \<le> 0
          then Inl ValueError else Inl TypeError
      | Inr False \<Rightarrow> random_choice draws i (map fst move_states))"

text \<open>
  The \<^verbatim>\<open>while result == None\<close> loop of one iteration, with fuel. It returns the
  terminal result, the rollout path and the position in the draws.
\<close>

type_synonym rollout_path = "(pyval \<times> int) list"

fun uct_descend ::
  "nat \<Rightarrow> game_spec \<Rightarrow> (nat \<Rightarrow> nat) \<Rightarrow> stats \<Rightarrow> pyval \<Rightarrow> int \<Rightarrow> bool \<Rightarrow> rollout_path \<Rightarrow> nat
     \<Rightarrow> error + (int \<times> rollout_path \<times> nat)" where
  "uct_descend 0 game draws state_samples current_board_state current_side
       first_unvisited_node path i = Inl Diverged"
| "uct_descend (Suc fuel) game draws state_samples current_board_state current_side
       first_unvisited_node path i =
     (let move_states = move_states_of game current_board_state current_side
      in if move_states = [] then Inr (0, path, i)
         else
           (case uct_select move_states state_samples draws i of
              Inl e \<Rightarrow> Inl e
            | Inr (move, i') \<Rightarrow>
                (case map_of move_states move of
                   None \<Rightarrow> Inl KeyError
                 | Some next_board_state \<Rightarrow>
                     (let path' = (if first_unvisited_node
                                   then path @ [(next_board_state, current_side)] else path);
                          first_unvisited_node' =
                            (first_unvisited_node \<and> state_samples next_board_state \<noteq> None)
                      in case has_winner game next_board_state of
                           Some result \<Rightarrow> Inr (result, path', i')
                         | None \<Rightarrow>
                             uct_descend fuel game draws state_samples next_board_state
                               (- current_side) first_unvisited_node' path' i'))))"

text \<open>
  The backup loop. The variable \<^verbatim>\<open>result\<close> is updated in place for each entry of the
  path and carried to the next one.
\<close>

fun backup :: "stats \<Rightarrow> stats \<Rightarrow> real \<Rightarrow> rollout_path \<Rightarrow> stats \<times> stats" where
  "backup state_results state_samples result [] = (state_results, state_samples)"
| "backup state_results state_samples result ((path_board_state, path_side) # path) =
     (let state_samples' = st_add state_samples path_board_state 1;
          result' = result * real_of_int path_side / 2 + 1 / 2
      in backup (st_add state_results path_board_state result') state_samples' result' path)"

text \<open>The value of \<^verbatim>\<open>result\<close> added to \<^verbatim>\<open>state_results\<close> for each entry of the path.\<close>

fun backup_scores :: "real \<Rightarrow> rollout_path \<Rightarrow> real list" where
  "backup_scores result [] = []"
| "backup_scores result ((path_board_state, path_side) # path) =
     (let result' = result * real_of_int path_side / 2 + 1 / 2
      in result' # backup_scores result' path)"

type_synonym uct_state = "stats \<times> stats \<times> nat"

fun uct_iterations ::
  "nat \<Rightarrow> nat \<Rightarrow> game_spec \<Rightarrow> (nat \<Rightarrow> nat) \<Rightarrow> pyval \<Rightarrow> int \<Rightarrow> uct_state \<Rightarrow> error + uct_state" where
  "uct_iterations 0 fuel game draws board_state side st = Inr st"
| "uct_iterations (Suc n) fuel game draws board_state side (state_results, state_samples, i) =
     (case uct_descend fuel game draws state_samples board_state side True [] i of
        Inl e \<Rightarrow> Inl e
      | Inr (result, path, i') \<Rightarrow>
          (case backup state_results state_samples (real_of_int result) path of
             (state_results', state_samples') \<Rightarrow>
               uct_iterations n fuel game draws board_state side
                 (state_results', state_samples', i')))"

text \<open>
  The final choice: a child without samples is ranked with the divisor \<^verbatim>\<open>10e3\<close>; the
  confidence returned divides by the chosen child's own sample count.
\<close>

definition final_key :: "stats \<Rightarrow> stats \<Rightarrow> (pyval \<times> pyval) list \<Rightarrow> pyval \<Rightarrow> real" where
  "final_key state_results state_samples move_states x =
     (let s = (case map_of move_states x of None \<Rightarrow> PNone | Some s \<Rightarrow> s)
      in st_get state_results s
           / (if st_get state_samples s > 0 then st_get state_samples s else 10000))"

definition uct_final ::
  "game_spec \<Rightarrow> pyval \<Rightarrow> int \<Rightarrow> stats \<Rightarrow> stats \<Rightarrow> error + (real \<times> pyval)" where
  "uct_final game board_state side state_results state_samples =
     (let move_states = move_states_of game board_state side
      in case map fst move_states of
           [] \<Rightarrow> Inl ValueError
         | k # ks \<Rightarrow>
             (let move = py_max_by (final_key state_results state_samples move_states) k ks
              in case map_of move_states move of
                   None \<Rightarrow> Inl KeyError
                 | Some s \<Rightarrow>
                     if st_get state_samples s = 0 then Inl ZeroDivisionError
                     else Inr (st_get state_results s / st_get state_samples s, move)))"

definition monte_carlo_tree_search_uct ::
  "nat \<Rightarrow> game_spec \<Rightarrow> (nat \<Rightarrow> nat) \<Rightarrow> pyval \<Rightarrow> int \<Rightarrow> nat \<Rightarrow> error + (real \<times> pyval)" where
  "monte_carlo_tree_search_uct fuel game draws board_state side number_of_samples =
     (case uct_iterations number_of_samples fuel game draws board_state side
             (Map.empty, Map.empty, 0) of
        Inl e \<Rightarrow> Inl e
      | Inr (state_results, state_samples, i) \<Rightarrow>
          uct_final game board_state side state_results state_samples)"

section \<open>The invariant of the flat search's tables\<close>


section \<open>A small game to run the searches on\<close>

text \<open>
  Boards are \<open>(n,)\<close>, moves are pairs \<open>(0, c)\<close>. From boards 0, 1 and 2 both moves are
  legal and lead to board \<open>2 * n + c + 1\<close>; boards 3 and 5 are won by the plus player,
  board 4 by the minus player; board 6 (and every other board) has no winner and no
  legal move. \<open>draws_of\<close> turns a list into a sequence of draws.
\<close>

definition draws_of :: "nat list \<Rightarrow> nat \<Rightarrow> nat" where
  "draws_of xs i = (if i < length xs then xs ! i else 0)"

definition toy_moves :: "pyval \<Rightarrow> pyval list" where
  "toy_moves b =
     (if b \<in> {PTuple [PInt 0], PTuple [PInt 1], PTuple [PInt 2]}
      then [PTuple [PInt 0, PInt 0], PTuple [PInt 0, PInt 1]] else [])"

definition toy_winner :: "pyval \<Rightarrow> int option" where
  "toy_winner b =
     (if b = PTuple [PInt 3] \<or> b = PTuple [PInt 5] then Some 1
      else if b = PTuple [PInt 4] then Some (- 1)
      else None)"

fun toy_apply :: "pyval \<Rightarrow> pyval \<Rightarrow> int \<Rightarrow> pyval" where
  "toy_apply (PTuple [PInt n]) (PTuple [PInt r, PInt c]) side = PTuple [PInt (2 * n + c + 1)]"
| "toy_apply b m side = b"

definition toy_game :: game_spec where
  "toy_game = \<lparr> has_winner = toy_winner, available_moves = toy_moves, apply_move = toy_apply,
      flat_move_to_tuple = (\<lambda>j. PTuple [PInt (j div 9), PInt (j mod 9)]),
      tuple_move_to_flat = (\<lambda>m. case m of PTuple [PInt r, PInt c] \<Rightarrow> 9 * r + c | _ \<Rightarrow> 0) \<rparr>"

definition no_net :: network where
  "no_net b s d = []"

section \<open>Facts about the helpers\<close>








section \<open>The rollout sampler returns at terminal states and keeps the first move\<close>

text \<open>
  Claim C8. With at least one stack frame, \<open>monte_carlo_sample\<close> returns \<open>(result, None)\<close>
  at a board that has a winner and \<open>(0, None)\<close> at a board without winner and without
  legal moves, in both cases without consuming a draw and without a recursive call (one
  frame is enough). Otherwise, when the recursive rollout from the chosen move's board
  returns \<open>(result, next_move)\<close>, the call returns \<open>result\<close> paired with the move chosen in
  this call, and \<open>next_move\<close> is dropped.
\<close>

theorem monte_carlo_sample_returns:
  "(has_winner game b = Some r \<longrightarrow>
      monte_carlo_sample (Suc fuel) game net draws policy b side i = Inr (r, PNone, i))
   \<and> (has_winner game b = None \<and> available_moves game b = [] \<longrightarrow>
      monte_carlo_sample (Suc fuel) game net draws policy b side i = Inr (0, PNone, i))
   \<and> (has_winner game b = None \<and> available_moves game b \<noteq> []
        \<and> (if policy then network_move game net draws i b side
            else random_choice draws i (available_moves game b)) = Inr (move, i')
        \<and> monte_carlo_sample fuel game net draws policy (apply_move game b move side) (- side) i'
            = Inr (result, next_move, i'') \<longrightarrow>
      monte_carlo_sample (Suc fuel) game net draws policy b side i = Inr (result, move, i''))"
  by (simp add: Let_def)

theorem monte_carlo_sample_returns_witness:
  "monte_carlo_sample (Suc 0) toy_game no_net (draws_of [1, 1]) False (PTuple [PInt 4]) (- 1) 2
     = Inr (- 1, PNone, 2)
   \<and> monte_carlo_sample (Suc 0) toy_game no_net (draws_of [1, 1]) False (PTuple [PInt 6]) (- 1) 2
     = Inr (0, PNone, 2)
   \<and> monte_carlo_sample (Suc (Suc 0)) toy_game no_net (draws_of [1, 1]) False (PTuple [PInt 1]) (- 1) 1
     = Inr (- 1, PTuple [PInt 0, PInt 1], 2)"
proof -
  have w: "has_winner toy_game (PTuple [PInt 4]) = Some (- 1)"
    by (simp add: toy_game_def toy_winner_def)
  have s: "has_winner toy_game (PTuple [PInt 6]) = None \<and> available_moves toy_game (PTuple [PInt 6]) = []"
    by (simp add: toy_game_def toy_winner_def toy_moves_def)
  have m: "has_winner toy_game (PTuple [PInt 1]) = None \<and> available_moves toy_game (PTuple [PInt 1]) \<noteq> []
        \<and> (if False then network_move toy_game no_net (draws_of [1, 1]) 1 (PTuple [PInt 1]) (- 1)
            else random_choice (draws_of [1, 1]) 1 (available_moves toy_game (PTuple [PInt 1])))
            = Inr (PTuple [PInt 0, PInt 1], 2)
        \<and> monte_carlo_sample (Suc 0) toy_game no_net (draws_of [1, 1]) False
             (apply_move toy_game (PTuple [PInt 1]) (PTuple [PInt 0, PInt 1]) (- 1)) (- (- 1)) 2
            = Inr (- 1, PNone, 2)"
    by (simp add: toy_game_def toy_winner_def toy_moves_def random_choice_def draws_of_def)
  show ?thesis
    using monte_carlo_sample_returns [of toy_game "PTuple [PInt 4]" "- 1" 0 no_net "draws_of [1, 1]" False "- 1" 2]
      monte_carlo_sample_returns [of toy_game "PTuple [PInt 6]" _ 0 no_net "draws_of [1, 1]" False "- 1" 2]
      monte_carlo_sample_returns [of toy_game "PTuple [PInt 1]" _ "Suc 0" no_net "draws_of [1, 1]" False "- 1" 1
         "PTuple [PInt 0, PInt 1]" 2 "- 1" PNone 2]
      w s m
    by blast
qed

section \<open>The exploration bonus of UCB1\<close>

text \<open>
  Claim C9. The exploration bonus is what \<open>upper_confidence_bounds\<close> adds to the mean
  \<open>payout / samples\<close>, evaluated as the tree search intends to call it, with
  \<open>log_total_samples = ln total\<close>. For natural numbers \<open>1 \<le> c \<le> t\<close> with \<open>2 \<le> t\<close> it is
  strictly smaller at a larger sample count \<open>c'\<close> (with \<open>c' \<le> t\<close>) and strictly larger
  at a larger total \<open>t'\<close>. Floats are modelled as reals.
\<close>

theorem ucb_bonus_monotone:
  fixes c c' t t' :: nat
  assumes "1 \<le> c" and "c \<le> t" and "2 \<le> t"
  shows "(c < c' \<and> c' \<le> t \<longrightarrow>
            upper_confidence_bounds p (real c') (ln (real t)) - p / real c'
              < upper_confidence_bounds p (real c) (ln (real t)) - p / real c)
       \<and> (t < t' \<longrightarrow>
            upper_confidence_bounds p (real c) (ln (real t)) - p / real c
              < upper_confidence_bounds p (real c) (ln (real t')) - p / real c)"
proof (intro conjI impI)
  have lnpos: "0 < 2 * ln (real t)" using assms by simp
  have cpos: "0 < real c" using assms by simp
  {
    assume h: "c < c' \<and> c' \<le> t"
    then have "2 * ln (real t) / real c' < 2 * ln (real t) / real c"
      using lnpos cpos by (simp add: divide_strict_left_mono)
    then show "upper_confidence_bounds p (real c') (ln (real t)) - p / real c'
              < upper_confidence_bounds p (real c) (ln (real t)) - p / real c"
      by (simp add: upper_confidence_bounds_def)
  }
  {
    assume h: "t < t'"
    then have "ln (real t) < ln (real t')" using assms by simp
    then have "2 * ln (real t) / real c < 2 * ln (real t') / real c"
      using cpos by (simp add: divide_strict_right_mono)
    then show "upper_confidence_bounds p (real c) (ln (real t)) - p / real c
              < upper_confidence_bounds p (real c) (ln (real t')) - p / real c"
      by (simp add: upper_confidence_bounds_def)
  }
qed

theorem ucb_bonus_monotone_witness:
  "upper_confidence_bounds 0 2 (ln 2) - 0 / 2 < upper_confidence_bounds 0 1 (ln 2) - 0 / 1
   \<and> upper_confidence_bounds 0 1 (ln 2) - 0 / 1 < upper_confidence_bounds 0 1 (ln 3) - 0 / 1"
  using ucb_bonus_monotone [where c = 1 and c' = 2 and t = 2 and t' = 3 and p = 0] by simp

section \<open>Flat search at a terminal root\<close>

lemma flat_rollouts_terminal_win:
  assumes "has_winner game b = Some side"
  shows "flat_rollouts n (Suc fuel) game net draws policy b side
           ([(PNone, int (Suc m))], [(PNone, int (Suc m))], Some PNone, i)
         = Inr ([(PNone, int (Suc m + n))], [(PNone, int (Suc m + n))], Some PNone, i)"
proof (induction n arbitrary: m)
  case 0
  then show ?case by simp
next
  case (Suc n)
  have s: "monte_carlo_sample (Suc fuel) game net draws policy b side i = Inr (side, PNone, i)"
    using assms by simp
  have d: "dd_incr [(PNone, int (Suc m))] PNone = [(PNone, int (Suc (Suc m)))]"
    by (simp add: dd_incr_def dd_get_def)
  show ?case
    using Suc.IH [of "Suc m"]
    by (simp only: flat_rollouts.simps s sum.case prod.case d if_True simp_thms add_Suc_right add_Suc)
qed

lemma flat_rollouts_terminal_no_win:
  assumes "has_winner game b = Some r" and "r \<noteq> side"
  shows "flat_rollouts n (Suc fuel) game net draws policy b side
           ([], [(PNone, int (Suc m))], Some PNone, i)
         = Inr ([], [(PNone, int (Suc m + n))], Some PNone, i)"
proof (induction n arbitrary: m)
  case 0
  then show ?case by simp
next
  case (Suc n)
  have s: "monte_carlo_sample (Suc fuel) game net draws policy b side i = Inr (r, PNone, i)"
    using assms by simp
  have d: "dd_incr [(PNone, int (Suc m))] PNone = [(PNone, int (Suc (Suc m)))]"
    by (simp add: dd_incr_def dd_get_def)
  show ?case
    using Suc.IH [of "Suc m"] assms(2)
    by (simp only: flat_rollouts.simps s sum.case prod.case d if_False add_Suc_right add_Suc)
qed

text \<open>
  Claim C10. At a root that has a winner \<open>r\<close>, with \<open>N \<ge> 1\<close> rollouts and at least one
  stack frame, every rollout returns \<open>(r, None)\<close>, both tables have \<open>None\<close> as their only
  key, and the flat search (not in policy mode) returns \<open>(k / N, None)\<close>, where \<open>k\<close> is
  the number of rollouts whose result equals \<open>side\<close>: \<open>N\<close> if \<open>r = side\<close>, else \<open>0\<close>.
\<close>

theorem flat_search_terminal_root:
  assumes "has_winner game board_state = Some r" and "1 \<le> N"
  shows "monte_carlo_sample (Suc fuel) game net draws False board_state side i = Inr (r, PNone, i)
    \<and> flat_rollouts N (Suc fuel) game net draws False board_state side ([], [], None, 0)
        = Inr (if r = side then [(PNone, int N)] else [], [(PNone, int N)], Some PNone, 0)
    \<and> monte_carlo_tree_search (Suc fuel) game net draws False board_state side N
        = Inr (real (if r = side then N else 0) / real N, Move PNone)"
proof -
  obtain n where N: "N = Suc n" using assms(2) by (cases N) auto
  have s: "monte_carlo_sample (Suc fuel) game net draws False board_state side i = Inr (r, PNone, i)" for i
    using assms(1) by simp
  have d: "dd_incr [] PNone = [(PNone, int (Suc 0))]"
    by (simp add: dd_incr_def dd_get_def)
  have roll: "flat_rollouts N (Suc fuel) game net draws False board_state side ([], [], None, 0)
        = Inr (if r = side then [(PNone, int N)] else [], [(PNone, int N)], Some PNone, 0)"
  proof (cases "r = side")
    case True
    then show ?thesis
      using flat_rollouts_terminal_win [of game board_state side n fuel net draws False 0 0] assms(1)
      by (simp only: N flat_rollouts.simps s sum.case prod.case d if_True simp_thms add_0 add_Suc)
  next
    case False
    then show ?thesis
      using flat_rollouts_terminal_no_win [of game board_state r side n fuel net draws False 0 0] assms(1)
      by (simp only: N flat_rollouts.simps s sum.case prod.case d if_False simp_thms add_0 add_Suc)
  qed
  have sel: "monte_carlo_tree_search (Suc fuel) game net draws False board_state side N
        = Inr (real (if r = side then N else 0) / real N, Move PNone)"
    unfolding monte_carlo_tree_search_def roll
    by (simp add: flat_select_def flat_result_def dd_get_def N)
  from s roll sel show ?thesis by blast
qed

theorem flat_search_terminal_root_witness:
  "monte_carlo_tree_search (Suc 0) toy_game no_net (draws_of []) False (PTuple [PInt 4]) (- 1) 3
     = Inr (1, Move PNone)"
proof -
  have w: "has_winner toy_game (PTuple [PInt 4]) = Some (- 1)"
    by (simp add: toy_game_def toy_winner_def)
  show ?thesis
    using flat_search_terminal_root [OF w, of 3 0 no_net "draws_of []" "- 1" 0] by simp
qed

section \<open>Scores backed up by the tree search\<close>

lemma st_get_add: "st_get (st_add d k v) k' = (if k' = k then st_get d k + v else st_get d k')"
  by (simp add: st_add_def st_get_def)

lemma normalise_range:
  assumes "- 1 \<le> r" and "r \<le> 1" and "s = 1 \<or> s = - 1"
  shows "0 \<le> r * real_of_int s / 2 + 1 / 2 \<and> r * real_of_int s / 2 + 1 / 2 \<le> 1"
  using assms by auto

lemma backup_scores_range:
  assumes "- 1 \<le> r" and "r \<le> 1" and "\<forall>(b, s) \<in> set path. s = 1 \<or> s = - 1"
  shows "\<forall>v \<in> set (backup_scores r path). 0 \<le> v \<and> v \<le> 1"
  using assms
proof (induction path arbitrary: r)
  case Nil
  then show ?case by simp
next
  case (Cons e path)
  obtain b s where e: "e = (b, s)" by (cases e)
  define r' where "r' = r * real_of_int s / 2 + 1 / 2"
  have s: "s = 1 \<or> s = - 1" using Cons.prems(3) e by simp
  have r': "0 \<le> r' \<and> r' \<le> 1"
    unfolding r'_def using normalise_range [OF Cons.prems(1,2) s] .
  have rest: "\<forall>v \<in> set (backup_scores r' path). 0 \<le> v \<and> v \<le> 1"
    using Cons.IH [of r'] r' Cons.prems(3) by simp
  show ?case using r' rest by (simp add: e Let_def r'_def)
qed

lemma backup_keeps_bounds:
  assumes "\<forall>k. 0 \<le> st_get res k \<and> st_get res k \<le> st_get smp k"
    and "- 1 \<le> r" and "r \<le> 1" and "\<forall>(b, s) \<in> set path. s = 1 \<or> s = - 1"
    and "backup res smp r path = (res', smp')"
  shows "0 \<le> st_get res' k \<and> st_get res' k \<le> st_get smp' k"
  using assms
proof (induction path arbitrary: res smp r)
  case Nil
  then show ?case by simp
next
  case (Cons e path)
  obtain b s where e: "e = (b, s)" by (cases e)
  define r' where "r' = r * real_of_int s / 2 + 1 / 2"
  have s: "s = 1 \<or> s = - 1" using Cons.prems(4) e by simp
  have r': "0 \<le> r' \<and> r' \<le> 1"
    unfolding r'_def using normalise_range [OF Cons.prems(2,3) s] .
  have inv: "\<forall>k. 0 \<le> st_get (st_add res b r') k
               \<and> st_get (st_add res b r') k \<le> st_get (st_add smp b 1) k"
    using Cons.prems(1) r' by (auto simp: st_get_add intro: add_mono)
  have run: "backup (st_add res b r') (st_add smp b 1) r' path = (res', smp')"
    using Cons.prems(5) by (simp add: e Let_def r'_def)
  show ?case
    using Cons.IH [OF inv _ _ _ run] r' Cons.prems(4) by simp
qed

lemma backup_adds_scores:
  "st_get (fst (backup res smp r path)) k
     = st_get res k
       + sum_list (map snd (filter (\<lambda>p. fst p = k) (zip (map fst path) (backup_scores r path))))"
proof (induction path arbitrary: res smp r)
  case Nil
  then show ?case by simp
next
  case (Cons e path)
  obtain b s where e: "e = (b, s)" by (cases e)
  show ?case by (simp add: e Let_def Cons.IH st_get_add)
qed

lemma backup_counts_samples:
  "st_get (snd (backup res smp r path)) k
     = st_get smp k + real (length (filter (\<lambda>p. fst p = k) path))"
proof (induction path arbitrary: res smp r)
  case Nil
  then show ?case by simp
next
  case (Cons e path)
  obtain b s where e: "e = (b, s)" by (cases e)
  show ?case by (simp add: e Let_def Cons.IH st_get_add)
qed

lemma uct_descend_sides:
  assumes W: "\<forall>b r. has_winner game b = Some r \<longrightarrow> r \<in> {- 1, 0, 1}"
  shows "side = 1 \<or> side = - 1 \<Longrightarrow> \<forall>(b, s) \<in> set path0. s = 1 \<or> s = - 1 \<Longrightarrow>
     uct_descend fuel game draws smp b side fu path0 i = Inr (result, path, i') \<Longrightarrow>
     result \<in> {- 1, 0, 1} \<and> (\<forall>(b, s) \<in> set path. s = 1 \<or> s = - 1)"
proof (induction fuel arbitrary: b side fu path0 i)
  case 0
  then show ?case by simp
next
  case (Suc fuel)
  define ms where "ms = move_states_of game b side"
  show ?case
  proof (cases "ms = []")
    case True
    then show ?thesis using Suc.prems by (simp add: ms_def [symmetric])
  next
    case False
    from Suc.prems(3) False obtain move i1 where sel: "uct_select ms smp draws i = Inr (move, i1)"
      by (auto simp: ms_def [symmetric] split: sum.splits)
    from Suc.prems(3) False sel obtain nb where nb: "map_of ms move = Some nb"
      by (auto simp: ms_def [symmetric] split: option.splits)
    define path1 where "path1 = (if fu then path0 @ [(nb, side)] else path0)"
    have p1: "\<forall>(b, s) \<in> set path1. s = 1 \<or> s = - 1"
      using Suc.prems(1,2) by (auto simp: path1_def)
    show ?thesis
    proof (cases "has_winner game nb")
      case (Some r)
      then have "result = r \<and> path = path1"
        using Suc.prems(3) False sel nb by (simp add: ms_def [symmetric] Let_def path1_def)
      then show ?thesis using W Some p1 by blast
    next
      case None
      then have run: "uct_descend fuel game draws smp nb (- side) (fu \<and> smp nb \<noteq> None) path1 i1
          = Inr (result, path, i')"
        using Suc.prems(3) False sel nb by (simp add: ms_def [symmetric] Let_def path1_def)
      have "- side = 1 \<or> - side = - 1" using Suc.prems(1) by auto
      from Suc.IH [OF this p1 run] show ?thesis .
    qed
  qed
qed

lemma uct_iterations_bounds:
  assumes W: "\<forall>b r. has_winner game b = Some r \<longrightarrow> r \<in> {- 1, 0, 1}"
    and side: "side = 1 \<or> side = - 1"
  shows "\<forall>k. 0 \<le> st_get res k \<and> st_get res k \<le> st_get smp k \<Longrightarrow>
     uct_iterations n fuel game draws b side (res, smp, i) = Inr (res', smp', i') \<Longrightarrow>
     0 \<le> st_get res' k \<and> st_get res' k \<le> st_get smp' k"
proof (induction n arbitrary: res smp i)
  case 0
  then show ?case by simp
next
  case (Suc n)
  from Suc.prems(2) obtain result path i1
    where d: "uct_descend fuel game draws smp b side True [] i = Inr (result, path, i1)"
    by (auto split: sum.splits)
  obtain res1 smp1 where bk: "backup res smp (real_of_int result) path = (res1, smp1)"
    by (cases "backup res smp (real_of_int result) path")
  have run: "uct_iterations n fuel game draws b side (res1, smp1, i1) = Inr (res', smp', i')"
    using Suc.prems(2) d bk by simp
  have ok: "result \<in> {- 1, 0, 1} \<and> (\<forall>(b, s) \<in> set path. s = 1 \<or> s = - 1)"
    using uct_descend_sides [OF W side _ d] by simp
  then have r: "- 1 \<le> real_of_int result" "real_of_int result \<le> 1" by auto
  have inv: "\<forall>k. 0 \<le> st_get res1 k \<and> st_get res1 k \<le> st_get smp1 k"
    using backup_keeps_bounds [OF Suc.prems(1) r _ bk] ok by blast
  from Suc.IH [OF inv run] show ?case .
qed

text \<open>
  Claim C6. Let the game report only the results \<open>- 1\<close>, \<open>0\<close> and \<open>1\<close> and let \<open>side\<close> be
  \<open>1\<close> or \<open>- 1\<close>. After any number \<open>n\<close> of completed iterations of
  \<open>monte_carlo_tree_search_uct\<close>, every board state \<open>key\<close> has
  \<open>0 \<le> state_results[key] \<le> state_samples[key]\<close>. In the iteration that follows, every
  value the backup adds to \<open>state_results\<close> lies in \<open>[0, 1]\<close>, and the bound on the tables
  holds again after each entry of the rollout path has been backed up.
  (\<open>backup_adds_scores\<close> and \<open>backup_counts_samples\<close> tie \<open>backup_scores\<close> to \<open>backup\<close>.)
\<close>

theorem backed_up_scores_normalised:
  assumes "\<forall>b r. has_winner game b = Some r \<longrightarrow> r \<in> {- 1, 0, 1}"
    and "side = 1 \<or> side = - 1"
    and "uct_iterations n fuel game draws board_state side (Map.empty, Map.empty, 0)
           = Inr (state_results, state_samples, i)"
  shows "(0 \<le> st_get state_results key \<and> st_get state_results key \<le> st_get state_samples key)
    \<and> (\<forall>result path i'.
          uct_descend fuel game draws state_samples board_state side True [] i
            = Inr (result, path, i') \<longrightarrow>
          (\<forall>v \<in> set (backup_scores (real_of_int result) path). 0 \<le> v \<and> v \<le> 1)
          \<and> (\<forall>j res' smp'.
                backup state_results state_samples (real_of_int result) (take j path) = (res', smp')
                \<longrightarrow> 0 \<le> st_get res' key \<and> st_get res' key \<le> st_get smp' key))"
proof -
  have empty: "\<forall>k. 0 \<le> st_get Map.empty k \<and> st_get Map.empty k \<le> st_get Map.empty k"
    by (simp add: st_get_def)
  have inv: "0 \<le> st_get state_results k \<and> st_get state_results k \<le> st_get state_samples k" for k
    using uct_iterations_bounds [OF assms(1,2) empty assms(3)] .
  have next_iteration:
    "(\<forall>v \<in> set (backup_scores (real_of_int result) path). 0 \<le> v \<and> v \<le> 1)
      \<and> (\<forall>j res' smp'.
            backup state_results state_samples (real_of_int result) (take j path) = (res', smp')
            \<longrightarrow> 0 \<le> st_get res' key \<and> st_get res' key \<le> st_get smp' key)"
    if d: "uct_descend fuel game draws state_samples board_state side True [] i
            = Inr (result, path, i')" for result path i'
  proof -
    have ok: "result \<in> {- 1, 0, 1} \<and> (\<forall>(b, s) \<in> set path. s = 1 \<or> s = - 1)"
      using uct_descend_sides [OF assms(1,2) _ d] by simp
    then have r: "- 1 \<le> real_of_int result" "real_of_int result \<le> 1" by auto
    have sides: "\<forall>(b, s) \<in> set (take j path). s = 1 \<or> s = - 1" for j
      using ok by (meson in_set_takeD)
    have scores: "\<forall>v \<in> set (backup_scores (real_of_int result) path). 0 \<le> v \<and> v \<le> 1"
      using backup_scores_range [OF r] ok by blast
    have steps: "0 \<le> st_get res' key \<and> st_get res' key \<le> st_get smp' key"
      if "backup state_results state_samples (real_of_int result) (take j path) = (res', smp')"
      for j res' smp'
      using backup_keeps_bounds [OF _ r sides that] inv by blast
    from scores steps show ?thesis by blast
  qed
  from inv next_iteration show ?thesis by blast
qed

theorem backed_up_scores_normalised_witness:
  "\<exists>res smp i.
     uct_iterations 1 5 toy_game (draws_of [1, 1, 1, 1]) (PTuple [PInt 0]) 1
       (Map.empty, Map.empty, 0) = Inr (res, smp, i)
     \<and> st_get res (PTuple [PInt 2]) = 1 / 2 \<and> st_get smp (PTuple [PInt 2]) = 1
     \<and> 0 \<le> st_get res (PTuple [PInt 2])
     \<and> st_get res (PTuple [PInt 2]) \<le> st_get smp (PTuple [PInt 2])
     \<and> uct_descend 5 toy_game (draws_of [1, 1, 1, 1]) smp (PTuple [PInt 0]) 1 True [] i
         = Inr (0, [(PTuple [PInt 2], 1), (PTuple [PInt 6], - 1)], 4)
     \<and> (\<forall>v \<in> set (backup_scores 0 [(PTuple [PInt 2], 1), (PTuple [PInt 6], - 1)]).
           0 \<le> v \<and> v \<le> 1)"
proof -
  have W: "\<forall>b r. has_winner toy_game b = Some r \<longrightarrow> r \<in> {- 1, 0, 1}"
    by (simp add: toy_game_def toy_winner_def)
  have side: "(1::int) = 1 \<or> (1::int) = - 1" by simp
  have run: "case uct_iterations 1 5 toy_game (draws_of [1, 1, 1, 1]) (PTuple [PInt 0]) 1
               (Map.empty, Map.empty, 0) of
               Inl e \<Rightarrow> False
             | Inr (res, smp, i) \<Rightarrow>
                 st_get res (PTuple [PInt 2]) = 1 / 2 \<and> st_get smp (PTuple [PInt 2]) = 1
                 \<and> uct_descend 5 toy_game (draws_of [1, 1, 1, 1]) smp (PTuple [PInt 0]) 1 True [] i
                     = Inr (0, [(PTuple [PInt 2], 1), (PTuple [PInt 6], - 1)], 4)"
    by code_simp
  then obtain res smp i where
    eq: "uct_iterations 1 5 toy_game (draws_of [1, 1, 1, 1]) (PTuple [PInt 0]) 1
           (Map.empty, Map.empty, 0) = Inr (res, smp, i)"
    and vals: "st_get res (PTuple [PInt 2]) = 1 / 2" "st_get smp (PTuple [PInt 2]) = 1"
    and d: "uct_descend 5 toy_game (draws_of [1, 1, 1, 1]) smp (PTuple [PInt 0]) 1 True [] i
              = Inr (0, [(PTuple [PInt 2], 1), (PTuple [PInt 6], - 1)], 4)"
    by (auto split: sum.splits)
  from backed_up_scores_normalised [OF W side eq, of "PTuple [PInt 2]"] d
  have "0 \<le> st_get res (PTuple [PInt 2])
      \<and> st_get res (PTuple [PInt 2]) \<le> st_get smp (PTuple [PInt 2])
      \<and> (\<forall>v \<in> set (backup_scores 0 [(PTuple [PInt 2], 1), (PTuple [PInt 6], - 1)]).
           0 \<le> v \<and> v \<le> 1)"
    by (metis of_int_0)
  with eq vals d show ?thesis by blast
qed

section \<open>The move chosen by the flat search\<close>
















section \<open>Both searches return a legal move\<close>



section \<open>Where the code departs from its documented behaviour\<close>

text \<open>
  Claim C1 does not hold of the code. In the small game, after two iterations both
  children of the root have one sample; board 1 has mean \<open>1\<close> and board 2 has mean
  \<open>1 / 2\<close>, so the UCB1 score of move \<open>(0, 0)\<close> is the larger one. The membership test of
  the descent looks up the second component of each move, \<open>0\<close> and \<open>1\<close>, which are not
  board states, so the third iteration chooses by the draw and takes \<open>(0, 1)\<close>. When the
  test does succeed (here for a move whose second component is a sampled board), the
  call of \<^verbatim>\<open>max\<close> raises \<^verbatim>\<open>TypeError\<close>.
\<close>

theorem uct_descent_ignores_ucb1:
  "(case uct_iterations 2 5 toy_game (draws_of [0, 0, 1, 1, 1, 0]) (PTuple [PInt 0]) 1
           (Map.empty, Map.empty, 0) of
      Inl e \<Rightarrow> False
    | Inr (state_results, state_samples, i) \<Rightarrow>
        move_states_of toy_game (PTuple [PInt 0]) 1
          = [(PTuple [PInt 0, PInt 0], PTuple [PInt 1]), (PTuple [PInt 0, PInt 1], PTuple [PInt 2])]
        \<and> state_samples (PTuple [PInt 1]) = Some 1 \<and> state_samples (PTuple [PInt 2]) = Some 1
        \<and> state_results (PTuple [PInt 1]) = Some 1 \<and> state_results (PTuple [PInt 2]) = Some (1 / 2)
        \<and> uct_select (move_states_of toy_game (PTuple [PInt 0]) 1) state_samples
             (draws_of [0, 0, 1, 1, 1, 0]) i = Inr (PTuple [PInt 0, PInt 1], Suc i))
   \<and> upper_confidence_bounds (1 / 2) 1 (ln (1 + 1)) < upper_confidence_bounds 1 1 (ln (1 + 1))
   \<and> uct_select [(PTuple [PInt 0, PTuple [PInt 2]], PTuple [PInt 2])]
        [PTuple [PInt 2] \<mapsto> 1] (draws_of []) 0 = Inl TypeError"
proof (intro conjI)
  show "case uct_iterations 2 5 toy_game (draws_of [0, 0, 1, 1, 1, 0]) (PTuple [PInt 0]) 1
           (Map.empty, Map.empty, 0) of
      Inl e \<Rightarrow> False
    | Inr (state_results, state_samples, i) \<Rightarrow>
        move_states_of toy_game (PTuple [PInt 0]) 1
          = [(PTuple [PInt 0, PInt 0], PTuple [PInt 1]), (PTuple [PInt 0, PInt 1], PTuple [PInt 2])]
        \<and> state_samples (PTuple [PInt 1]) = Some 1 \<and> state_samples (PTuple [PInt 2]) = Some 1
        \<and> state_results (PTuple [PInt 1]) = Some 1 \<and> state_results (PTuple [PInt 2]) = Some (1 / 2)
        \<and> uct_select (move_states_of toy_game (PTuple [PInt 0]) 1) state_samples
             (draws_of [0, 0, 1, 1, 1, 0]) i = Inr (PTuple [PInt 0, PInt 1], Suc i)"
    by code_simp
  show "upper_confidence_bounds (1 / 2) 1 (ln (1 + 1)) < upper_confidence_bounds 1 1 (ln (1 + 1))"
    by (simp add: upper_confidence_bounds_def)
  show "uct_select [(PTuple [PInt 0, PTuple [PInt 2]], PTuple [PInt 2])]
        [PTuple [PInt 2] \<mapsto> 1] (draws_of []) 0 = Inl TypeError"
    by (simp add: uct_select_def st_get_def)
qed

text \<open>
  Claim C2 does not hold of the code. In the small game four rollouts for the plus player
  give move \<open>(0, 0)\<close> two wins in three samples and move \<open>(0, 1)\<close> one win in one
  sample. The key of \<^verbatim>\<open>max\<close> divides every candidate's wins by the samples of the last
  rollout's move, so the move with more wins, \<open>(0, 0)\<close>, is returned with confidence
  \<open>2 / 3\<close>, although \<open>(0, 1)\<close> has the ratio \<open>1\<close>.
\<close>

theorem flat_search_maximises_wins_not_ratio:
  "flat_rollouts 4 3 toy_game no_net (draws_of [0, 0, 0, 0, 0, 1, 1, 0]) False
       (PTuple [PInt 0]) 1 ([], [], None, 0)
     = Inr ([(PTuple [PInt 0, PInt 0], 2), (PTuple [PInt 0, PInt 1], 1)],
            [(PTuple [PInt 0, PInt 0], 3), (PTuple [PInt 0, PInt 1], 1)],
            Some (PTuple [PInt 0, PInt 1]), 8)
   \<and> monte_carlo_tree_search 3 toy_game no_net (draws_of [0, 0, 0, 0, 0, 1, 1, 0]) False
       (PTuple [PInt 0]) 1 4 = Inr (2 / 3, Move (PTuple [PInt 0, PInt 0]))
   \<and> (2::real) / 3 < 1 / 1"
proof (intro conjI)
  show "flat_rollouts 4 3 toy_game no_net (draws_of [0, 0, 0, 0, 0, 1, 1, 0]) False
       (PTuple [PInt 0]) 1 ([], [], None, 0)
     = Inr ([(PTuple [PInt 0, PInt 0], 2), (PTuple [PInt 0, PInt 1], 1)],
            [(PTuple [PInt 0, PInt 0], 3), (PTuple [PInt 0, PInt 1], 1)],
            Some (PTuple [PInt 0, PInt 1]), 8)"
    by code_simp
  show "monte_carlo_tree_search 3 toy_game no_net (draws_of [0, 0, 0, 0, 0, 1, 1, 0]) False
       (PTuple [PInt 0]) 1 4 = Inr (2 / 3, Move (PTuple [PInt 0, PInt 0]))"
    by code_simp
  show "(2::real) / 3 < 1 / 1" by simp
qed

text \<open>
  Claim C3 does not hold of the code. In the second iteration of the small game the
  rollout path has two entries and the terminal result is \<open>0\<close>. The backup adds \<open>1 / 2\<close>
  for the first entry and then \<open>1 / 4\<close> for the second, computed from the value left by
  the first, where \<open>(0 * - 1) / 2 + 1 / 2 = 1 / 2\<close> is the value computed from the terminal
  result.
\<close>

theorem backup_compounds_result:
  "(case uct_iterations 1 5 toy_game (draws_of [1, 1, 1, 1]) (PTuple [PInt 0]) 1
           (Map.empty, Map.empty, 0) of
      Inl e \<Rightarrow> False
    | Inr (state_results, state_samples, i) \<Rightarrow>
        uct_descend 5 toy_game (draws_of [1, 1, 1, 1]) state_samples (PTuple [PInt 0]) 1 True [] i
          = Inr (0, [(PTuple [PInt 2], 1), (PTuple [PInt 6], - 1)], 4)
        \<and> state_results (PTuple [PInt 6]) = None
        \<and> (case backup state_results state_samples 0
                   [(PTuple [PInt 2], 1), (PTuple [PInt 6], - 1)] of
              (state_results', state_samples') \<Rightarrow>
                state_results' (PTuple [PInt 6]) = Some (1 / 4)
                \<and> state_samples' (PTuple [PInt 6]) = Some 1))
   \<and> backup_scores 0 [(PTuple [PInt 2], 1), (PTuple [PInt 6], - 1)] = [1 / 2, 1 / 4]
   \<and> (0 * real_of_int (- 1)) / 2 + 1 / 2 = (1 / 2 :: real)"
proof (intro conjI)
  show "case uct_iterations 1 5 toy_game (draws_of [1, 1, 1, 1]) (PTuple [PInt 0]) 1
           (Map.empty, Map.empty, 0) of
      Inl e \<Rightarrow> False
    | Inr (state_results, state_samples, i) \<Rightarrow>
        uct_descend 5 toy_game (draws_of [1, 1, 1, 1]) state_samples (PTuple [PInt 0]) 1 True [] i
          = Inr (0, [(PTuple [PInt 2], 1), (PTuple [PInt 6], - 1)], 4)
        \<and> state_results (PTuple [PInt 6]) = None
        \<and> (case backup state_results state_samples 0
                   [(PTuple [PInt 2], 1), (PTuple [PInt 6], - 1)] of
              (state_results', state_samples') \<Rightarrow>
                state_results' (PTuple [PInt 6]) = Some (1 / 4)
                \<and> state_samples' (PTuple [PInt 6]) = Some 1)"
    by code_simp
  show "backup_scores 0 [(PTuple [PInt 2], 1), (PTuple [PInt 6], - 1)] = [1 / 2, 1 / 4]"
    by (simp add: Let_def)
  show "(0 * real_of_int (- 1)) / 2 + 1 / 2 = (1 / 2 :: real)" by simp
qed

text \<open>
  Claim C4 does not hold of the code. The root of the small game has no winner and two
  legal moves. With no iteration at all, and with one iteration that samples the second
  move and scores it \<open>0\<close>, the first move is chosen although it has no sample, and the
  confidence divides by its sample count \<open>0\<close>.
\<close>

theorem uct_confidence_divides_by_zero:
  "has_winner toy_game (PTuple [PInt 0]) = None
   \<and> available_moves toy_game (PTuple [PInt 0]) = [PTuple [PInt 0, PInt 0], PTuple [PInt 0, PInt 1]]
   \<and> monte_carlo_tree_search_uct 5 toy_game (draws_of []) (PTuple [PInt 0]) 1 0
       = Inl ZeroDivisionError
   \<and> monte_carlo_tree_search_uct 5 toy_game (draws_of [1, 0]) (PTuple [PInt 0]) (- 1) 1
       = Inl ZeroDivisionError"
  by code_simp

end
